theory Spec2Isabelle
  imports Main "HOL-Library.Sublist"
begin

section \<open>The props of \<open>CodePipelineConstruct\<close>, as run-time values\<close>

text \<open>
  The source is \<^verbatim>\<open>infrastructure/lib/codePipelineConstruct.ts\<close>: one class whose
  constructor builds a four-stage CodePipeline and two IAM roles out of its props.

  The TypeScript types are erased at run time, so the props are modelled as the
  JavaScript values the constructor can be handed: \<open>repoType\<close> is any string, and
  every field whose absence matters to a property below is an \<open>option\<close>
  (\<open>None\<close> is \<^verbatim>\<open>undefined\<close>). The declared type
  \<^verbatim>\<open>CodePipelineConstructProps\<close> is the predicate \<open>well_typed\<close>.
\<close>

record Bucket =
  bucketArn :: string
  bucketName :: string

record RoleHandle =
  roleArn :: string

record GitProps =
  githubConnectionArn :: string
  githubRepoOwner :: string
  githubRepoName :: string
  githubRepoBranch :: "string option"

record Props =
  dataManifestBucket :: Bucket
  sageMakerArtifactBucket :: "Bucket option"
  sageMakerExecutionRole :: "RoleHandle option"
  projectName :: "string option"
  repoType :: string
  git :: "GitProps option"

text \<open>\<^verbatim>\<open>cdk.Stack.of(this)\<close>: the region and account of the enclosing stack.\<close>

record Stack =
  region :: string
  account :: string

text \<open>
  The source has no \<^verbatim>\<open>throw\<close> statement. What it can raise by itself is the
  \<^verbatim>\<open>TypeError\<close> of reading a property of \<^verbatim>\<open>undefined\<close>, which carries the name
  of the property read; the library calls it makes raise the same on an
  \<^verbatim>\<open>undefined\<close> they dereference, and \<^verbatim>\<open>super(scope, id)\<close> raises a plain
  \<^verbatim>\<open>Error\<close> on an id that is taken.
\<close>

datatype error = TypeError string | Error string

text \<open>A template literal \<^verbatim>\<open>`${v}`\<close> prints \<^verbatim>\<open>undefined\<close> as the word.\<close>

definition interp :: "string option \<Rightarrow> string" where
  "interp v = (case v of None \<Rightarrow> ''undefined'' | Some s \<Rightarrow> s)"

text \<open>\<^verbatim>\<open>a || b\<close> on strings: \<open>b\<close> when \<open>a\<close> is \<^verbatim>\<open>undefined\<close> or empty.\<close>

definition or_else :: "string option \<Rightarrow> string \<Rightarrow> string" where
  "or_else a b = (case a of None \<Rightarrow> b | Some s \<Rightarrow> if s = [] then b else s)"

definition well_typed :: "Props \<Rightarrow> bool" where
  "well_typed p \<longleftrightarrow>
     sageMakerArtifactBucket p \<noteq> None \<and> sageMakerExecutionRole p \<noteq> None \<and>
     projectName p \<noteq> None \<and>
     (repoType p = ''git'' \<and> git p \<noteq> None \<or> repoType p = ''codecommit'')"

section \<open>The resources the constructor declares\<close>

datatype Artifact = Artifact (artifactName: string)

record Repository =
  repositoryId :: string
  repositoryName :: string

record Topic =
  topicId :: string
  topicName :: string

datatype Effect = Allow | Deny

text \<open>
  A statement as the source writes it: \<open>stmtEffect\<close> is \<open>None\<close> where the source
  gives no effect (the \<^verbatim>\<open>new iam.PolicyStatement\<close> calls), and the conditions are
  operator, key and values.
\<close>

record PolicyStatement =
  stmtEffect :: "Effect option"
  stmtActions :: "string list"
  stmtResources :: "string list"
  stmtConditions :: "(string \<times> (string \<times> string list) list) list"

record Role =
  roleId :: string
  assumedBy :: string
  policy :: "PolicyStatement list"

definition addToPolicy :: "Role \<Rightarrow> PolicyStatement \<Rightarrow> Role" where
  "addToPolicy r s = r\<lparr>policy := policy r @ [s]\<rparr>"

datatype LinuxBuildImage = STANDARD_5_0

text \<open>\<open>privileged\<close> and \<open>projectRole\<close> are \<open>None\<close> where the source leaves them out.\<close>

record PipelineProject =
  projectId :: string
  buildSpec :: string
  projectRole :: "Role option"
  buildImage :: LinuxBuildImage
  privileged :: "bool option"

datatype BuildEnvironmentVariableType = PLAINTEXT | PARAMETER_STORE | SECRETS_MANAGER

record BuildEnvironmentVariable =
  envType :: BuildEnvironmentVariableType
  envValue :: "string option"

datatype ActionKind =
    CodeStarConnectionsSourceAction
      (owner: string) (repo: string) (branch: string) (connectionArn: string)
  | CodeCommitSourceAction (repository: Repository) (branch: string)
  | S3SourceAction (bucket: Bucket) (bucketKey: string)
  | CodeBuildAction (project: PipelineProject)
      (environmentVariables: "(string \<times> BuildEnvironmentVariable) list")
  | ManualApprovalAction
      (notificationTopic: Topic) (additionalInformation: string) (externalEntityLink: string)

text \<open>
  Every action has a name, an optional run-order, an optional primary input, extra
  inputs and outputs. A source action's single \<^verbatim>\<open>output\<close> is the one element of
  \<open>outputs\<close>.
\<close>

record Action =
  actionName :: string
  kind :: ActionKind
  runOrder :: "nat option"
  input :: "Artifact option"
  extraInputs :: "Artifact list"
  outputs :: "Artifact list"

record Stage =
  stageName :: string
  actions :: "Action list"

record Pipeline =
  pipelineId :: string
  restartExecutionOnUpdate :: bool
  stages :: "Stage list"

text \<open>
  \<^verbatim>\<open>pipeline.addStage\<close> is the library's. It binds every action of the stage to the
  pipeline before the stage is added. Binding a CodeBuild action serialises its
  environment variables, and the check made of a plain-text variable reads the
  \<^verbatim>\<open>length\<close> of its value: a plain-text variable whose value is \<^verbatim>\<open>undefined\<close>
  raises there, and the stage is not added.
\<close>

definition plaintextUndefined :: "Action \<Rightarrow> bool" where
  "plaintextUndefined a =
     (case kind a of
        CodeBuildAction p vars \<Rightarrow>
          list_ex (\<lambda>v. envType (snd v) = PLAINTEXT \<and> envValue (snd v) = None) vars
      | _ \<Rightarrow> False)"

definition addStage :: "Pipeline \<Rightarrow> Stage \<Rightarrow> error + Pipeline" where
  "addStage pl s =
     (if list_ex plaintextUndefined (actions s) then Inl (TypeError ''length'')
      else Inr (pl\<lparr>stages := stages pl @ [s]\<rparr>))"

text \<open>
  The construct: its pipeline and the other resources declared in it so far, in
  declaration order.
\<close>

record CodePipelineConstruct =
  pipeline :: Pipeline
  repositories :: "Repository list"
  topics :: "Topic list"
  roles :: "Role list"
  projects :: "PipelineProject list"

section \<open>The constructor, local by local\<close>

definition sourceCodeOutput :: Artifact where
  "sourceCodeOutput = Artifact ''SourceCodeOutput''"

definition sourceDataOutput :: Artifact where
  "sourceDataOutput = Artifact ''SourceDataOutput''"

definition buildOutput :: Artifact where
  "buildOutput = Artifact ''BuildOutput''"

definition pipelineOutput :: Artifact where
  "pipelineOutput = Artifact ''PipelineOutput''"

definition sourceRepo :: Repository where
  "sourceRepo = \<lparr>repositoryId = ''SourceRepository'', repositoryName = ''MLOpsE2EDemo''\<rparr>"

text \<open>
  Lines 67 to 86: the source action, with the repositories declared on the way.
  Reading \<^verbatim>\<open>props.git.githubRepoOwner\<close> of an absent \<^verbatim>\<open>git\<close> raises.
\<close>

definition sourceCode :: "Props \<Rightarrow> error + Action \<times> Repository list" where
  "sourceCode props =
     (if repoType props = ''git'' then
        (case git props of
           None \<Rightarrow> Inl (TypeError ''githubRepoOwner'')
         | Some g \<Rightarrow>
             Inr (\<lparr>actionName = ''SourceCode'',
                   kind = CodeStarConnectionsSourceAction
                     (githubRepoOwner g) (githubRepoName g)
                     (or_else (githubRepoBranch g) ''main'') (githubConnectionArn g),
                   runOrder = None, input = None, extraInputs = [],
                   outputs = [sourceCodeOutput]\<rparr>, []))
      else
        Inr (\<lparr>actionName = ''SourceCode'',
              kind = CodeCommitSourceAction sourceRepo ''main'',
              runOrder = None, input = None, extraInputs = [],
              outputs = [sourceCodeOutput]\<rparr>, [sourceRepo]))"

definition sourceData :: "Props \<Rightarrow> Action" where
  "sourceData props =
     \<lparr>actionName = ''SourceData'',
      kind = S3SourceAction (dataManifestBucket props) ''manifest.json.zip'',
      runOrder = None, input = None, extraInputs = [],
      outputs = [sourceDataOutput]\<rparr>"

definition buildProject :: PipelineProject where
  "buildProject =
     \<lparr>projectId = ''CIBuild'', buildSpec = ''./buildspecs/build.yml'',
      projectRole = None, buildImage = STANDARD_5_0, privileged = Some True\<rparr>"

definition build :: Action where
  "build =
     \<lparr>actionName = ''CIBuild'', kind = CodeBuildAction buildProject [],
      runOrder = None, input = Some sourceCodeOutput,
      extraInputs = [sourceDataOutput], outputs = [buildOutput]\<rparr>"

subsection \<open>The role of the model pipeline's build project\<close>

definition artifactBucketStatement :: "Bucket \<Rightarrow> PolicyStatement" where
  "artifactBucketStatement b =
     \<lparr>stmtEffect = Some Allow,
      stmtActions = [''s3:CreateBucket'', ''s3:GetObject'', ''s3:PutObject'', ''s3:ListBucket''],
      stmtResources = [bucketArn b, bucketArn b @ ''/*''],
      stmtConditions = []\<rparr>"

definition pipelineLifecycleActions :: "string list" where
  "pipelineLifecycleActions =
     [''sagemaker:CreatePipeline'', ''sagemaker:ListTags'', ''sagemaker:AddTags'',
      ''sagemaker:UpdatePipeline'', ''sagemaker:DescribePipeline'',
      ''sagemaker:StartPipelineExecution'', ''sagemaker:DescribePipelineExecution'',
      ''sagemaker:ListPipelineExecutionSteps'']"

definition pipelineLifecycleStatement :: "Stack \<Rightarrow> Props \<Rightarrow> PolicyStatement" where
  "pipelineLifecycleStatement stack props =
     \<lparr>stmtEffect = Some Allow,
      stmtActions = pipelineLifecycleActions,
      stmtResources =
        [''arn:aws:sagemaker:'' @ region stack @ '':'' @ account stack @ '':pipeline/''
           @ interp (projectName props),
         ''arn:aws:sagemaker:'' @ region stack @ '':'' @ account stack @ '':pipeline/''
           @ interp (projectName props) @ ''/*''],
      stmtConditions = []\<rparr>"

definition passRoleStatement :: "RoleHandle \<Rightarrow> PolicyStatement" where
  "passRoleStatement r =
     \<lparr>stmtEffect = Some Allow, stmtActions = [''iam:PassRole''],
      stmtResources = [roleArn r], stmtConditions = []\<rparr>"

text \<open>
  Lines 124 to 166. The first statement reads \<^verbatim>\<open>bucketArn\<close> of the artifact bucket
  and the third \<^verbatim>\<open>roleArn\<close> of the execution role; either read raises on an absent
  field, and the role is left with the statements added until then.
\<close>

definition mlPipelineRole :: "Stack \<Rightarrow> Props \<Rightarrow> error \<times> Role + Role" where
  "mlPipelineRole stack props =
     (let r0 = \<lparr>roleId = ''MLPipelineRole'', assumedBy = ''codebuild.amazonaws.com'',
                policy = []\<rparr>
      in case sageMakerArtifactBucket props of
           None \<Rightarrow> Inl (TypeError ''bucketArn'', r0)
         | Some b \<Rightarrow>
             (let r1 = addToPolicy r0 (artifactBucketStatement b);
                  r2 = addToPolicy r1 (pipelineLifecycleStatement stack props)
              in case sageMakerExecutionRole props of
                   None \<Rightarrow> Inl (TypeError ''roleArn'', r2)
                 | Some e \<Rightarrow> Inr (addToPolicy r2 (passRoleStatement e))))"

definition mlPipelineProject :: "Role \<Rightarrow> PipelineProject" where
  "mlPipelineProject r =
     \<lparr>projectId = ''MLPipeline'', buildSpec = ''./buildspecs/pipeline.yml'',
      projectRole = Some r, buildImage = STANDARD_5_0, privileged = None\<rparr>"

text \<open>Lines 176 to 195; the misspelt name is the source's.\<close>

definition mlPipelie :: "Props \<Rightarrow> Role \<Rightarrow> error + Action" where
  "mlPipelie props r =
     (case sageMakerArtifactBucket props of
        None \<Rightarrow> Inl (TypeError ''bucketName'')
      | Some b \<Rightarrow>
          (case sageMakerExecutionRole props of
             None \<Rightarrow> Inl (TypeError ''roleArn'')
           | Some e \<Rightarrow>
               Inr \<lparr>actionName = ''MLPipeline'',
                    kind = CodeBuildAction (mlPipelineProject r)
                      [(''SAGEMAKER_ARTIFACT_BUCKET'',
                          \<lparr>envType = PLAINTEXT, envValue = Some (bucketName b)\<rparr>),
                       (''SAGEMAKER_PIPELINE_ROLE_ARN'',
                          \<lparr>envType = PLAINTEXT, envValue = Some (roleArn e)\<rparr>),
                       (''SAGEMAKER_PROJECT_NAME'',
                          \<lparr>envType = PLAINTEXT, envValue = projectName props\<rparr>)],
                    runOrder = None, input = Some buildOutput, extraInputs = [],
                    outputs = [pipelineOutput]\<rparr>))"

subsection \<open>The deploy stage\<close>

definition deploymentApprovalTopic :: Topic where
  "deploymentApprovalTopic =
     \<lparr>topicId = ''ModelDeploymentApprovalTopic'', topicName = ''ModelDeploymentApprovalTopic''\<rparr>"

definition manualApprovalAction :: "Stack \<Rightarrow> Props \<Rightarrow> Action" where
  "manualApprovalAction stack props =
     \<lparr>actionName = ''Approval'',
      kind = ManualApprovalAction deploymentApprovalTopic
        (''A new version of the model for project '' @ interp (projectName props)
           @ '' is waiting for approval'')
        (''https://'' @ region stack @ ''.console.aws.amazon.com/sagemaker/home?region=''
           @ region stack @ ''#/studio/''),
      runOrder = Some 1, input = None, extraInputs = [], outputs = []\<rparr>"

definition calledViaCloudFormation :: "(string \<times> (string \<times> string list) list) list" where
  "calledViaCloudFormation =
     [(''ForAnyValue:StringEquals'', [(''aws:CalledVia'', [''cloudformation.amazonaws.com''])])]"

definition deployRole :: "Stack \<Rightarrow> Props \<Rightarrow> Role" where
  "deployRole stack props =
     (let r0 = \<lparr>roleId = ''DeployRole'', assumedBy = ''codebuild.amazonaws.com'',
                policy = []\<rparr>;
          r1 = addToPolicy r0
            \<lparr>stmtEffect = None, stmtActions = [''lambda:*Function*''],
             stmtResources =
               [''arn:aws:lambda:'' @ region stack @ '':'' @ account stack
                  @ '':function:Deployment-'' @ interp (projectName props) @ ''*''],
             stmtConditions = calledViaCloudFormation\<rparr>;
          r2 = addToPolicy r1
            \<lparr>stmtEffect = None, stmtActions = [''sagemaker:*Endpoint*''],
             stmtResources = [''*''],
             stmtConditions = calledViaCloudFormation\<rparr>;
          r3 = addToPolicy r2
            \<lparr>stmtEffect = None,
             stmtActions = [''iam:*Role'', ''iam:*Policy*'', ''iam:*RolePolicy''],
             stmtResources =
               [''arn:aws:iam::'' @ account stack @ '':role/Deployment-''
                  @ interp (projectName props) @ ''-*''],
             stmtConditions = calledViaCloudFormation\<rparr>;
          r4 = addToPolicy r3
            \<lparr>stmtEffect = None,
             stmtActions =
               [''cloudformation:DescribeStacks'', ''cloudformation:CreateChangeSet'',
                ''cloudformation:DescribeChangeSet'', ''cloudformation:ExecuteChangeSet'',
                ''cloudformation:DescribeStackEvents'', ''cloudformation:DeleteChangeSet'',
                ''cloudformation:GetTemplate''],
             stmtResources =
               [''arn:aws:cloudformation:'' @ region stack @ '':'' @ account stack
                  @ '':stack/CDKToolkit/*'',
                ''arn:aws:cloudformation:'' @ region stack @ '':'' @ account stack
                  @ '':stack/Deployment-'' @ interp (projectName props) @ ''/*''],
             stmtConditions = []\<rparr>
      in addToPolicy r4
            \<lparr>stmtEffect = None,
             stmtActions = [''s3:*Object'', ''s3:ListBucket'', ''s3:GetBucketLocation''],
             stmtResources = [''arn:aws:s3:::cdktoolkit-stagingbucket-*''],
             stmtConditions = []\<rparr>)"

definition deployProject :: "Stack \<Rightarrow> Props \<Rightarrow> PipelineProject" where
  "deployProject stack props =
     \<lparr>projectId = ''DeployProject'', buildSpec = ''./buildspecs/deploy.yml'',
      projectRole = Some (deployRole stack props), buildImage = STANDARD_5_0,
      privileged = Some True\<rparr>"

definition deploy :: "Stack \<Rightarrow> Props \<Rightarrow> Action" where
  "deploy stack props =
     \<lparr>actionName = ''Deploy'', kind = CodeBuildAction (deployProject stack props) [],
      runOrder = Some 2, input = Some buildOutput, extraInputs = [pipelineOutput],
      outputs = []\<rparr>"

subsection \<open>The statements of the constructor\<close>

text \<open>
  Lines 55 to 326, the statements after \<^verbatim>\<open>super(scope, id)\<close>, in their order; of the
  scope they read the stack only. A failure stops them where the source raises: the
  result is then the error, with the construct as it stands at that moment (the
  stages added and the resources declared so far), which stays in the scope.
\<close>

definition constructor ::
    "Stack \<Rightarrow> Props \<Rightarrow> error \<times> CodePipelineConstruct + CodePipelineConstruct" where
  "constructor stack props =
     (let c0 = \<lparr>pipeline =
                  \<lparr>pipelineId = ''MLOpsPipeline'', restartExecutionOnUpdate = True,
                   stages = []\<rparr>,
                repositories = [], topics = [], roles = [], projects = []\<rparr>
      in case sourceCode props of
           Inl e \<Rightarrow> Inl (e, c0)
         | Inr (sc, repos) \<Rightarrow>
     (let c1 = c0\<lparr>repositories := repos\<rparr>
      in case addStage (pipeline c1)
                \<lparr>stageName = ''Source'', actions = [sc, sourceData props]\<rparr> of
           Inl e \<Rightarrow> Inl (e, c1)
         | Inr p1 \<Rightarrow>
     (let c2 = c1\<lparr>pipeline := p1, projects := [buildProject]\<rparr>
      in case addStage p1 \<lparr>stageName = ''CI'', actions = [build]\<rparr> of
           Inl e \<Rightarrow> Inl (e, c2)
         | Inr p2 \<Rightarrow>
     (let c3 = c2\<lparr>pipeline := p2\<rparr>
      in case mlPipelineRole stack props of
           Inl (e, r) \<Rightarrow> Inl (e, c3\<lparr>roles := [r]\<rparr>)
         | Inr mlRole \<Rightarrow>
     (let c4 = c3\<lparr>roles := [mlRole], projects := [buildProject, mlPipelineProject mlRole]\<rparr>
      in case mlPipelie props mlRole of
           Inl e \<Rightarrow> Inl (e, c4)
         | Inr ml \<Rightarrow>
     (case addStage p2 \<lparr>stageName = ''MLPipeline'', actions = [ml]\<rparr> of
           Inl e \<Rightarrow> Inl (e, c4)
         | Inr p3 \<Rightarrow>
     (let c5 = c4\<lparr>pipeline := p3,
                  topics := [deploymentApprovalTopic],
                  roles := [mlRole, deployRole stack props],
                  projects := [buildProject, mlPipelineProject mlRole,
                               deployProject stack props]\<rparr>
      in case addStage p3
                \<lparr>stageName = ''Deploy'',
                 actions = [manualApprovalAction stack props, deploy stack props]\<rparr> of
           Inl e \<Rightarrow> Inl (e, c5)
         | Inr p4 \<Rightarrow> Inr (c5\<lparr>pipeline := p4\<rparr>))))))))"

subsection \<open>The constructor in its scope\<close>

text \<open>
  \<^verbatim>\<open>new CodePipelineConstruct(scope, id, props)\<close>. The scope is the construct the new
  one is declared in: it knows its stack and holds its children by id. Line 53,
  \<^verbatim>\<open>super(scope, id)\<close>, registers the new construct in the scope under \<open>id\<close> and
  raises when the scope has a child of this id already; the statements above then fill
  the registered construct. Of a child of another class only the id matters here.
\<close>

datatype Child = PipelineConstruct CodePipelineConstruct | OtherConstruct

record Scope =
  stackOf :: Stack
  children :: "(string \<times> Child) list"

definition childIds :: "Scope \<Rightarrow> string list" where
  "childIds scope = map fst (children scope)"

definition newCodePipelineConstruct ::
    "Scope \<Rightarrow> string \<Rightarrow> Props \<Rightarrow> (error + CodePipelineConstruct) \<times> Scope" where
  "newCodePipelineConstruct scope id' props =
     (if id' \<in> set (childIds scope) then
        (Inl (Error (''There is already a Construct with name '' @ id')), scope)
      else
        (case constructor (stackOf scope) props of
           Inl (e, c) \<Rightarrow>
             (Inl e, scope\<lparr>children := children scope @ [(id', PipelineConstruct c)]\<rparr>)
         | Inr c \<Rightarrow>
             (Inr c, scope\<lparr>children := children scope @ [(id', PipelineConstruct c)]\<rparr>)))"

section \<open>Reading a constructed pipeline\<close>

text \<open>The artifacts an action consumes: its primary input, then the extra ones.\<close>

definition inputs :: "Action \<Rightarrow> Artifact list" where
  "inputs a = (case input a of None \<Rightarrow> [] | Some x \<Rightarrow> [x]) @ extraInputs a"

definition findStage :: "string \<Rightarrow> CodePipelineConstruct \<Rightarrow> Stage option" where
  "findStage n c = find (\<lambda>s. stageName s = n) (stages (pipeline c))"

definition findAction :: "string \<Rightarrow> string \<Rightarrow> CodePipelineConstruct \<Rightarrow> Action option" where
  "findAction sn an c =
     (case findStage sn c of
        None \<Rightarrow> None
      | Some s \<Rightarrow> find (\<lambda>a. actionName a = an) (actions s))"

definition stageNames :: "CodePipelineConstruct \<Rightarrow> string list" where
  "stageNames c = map stageName (stages (pipeline c))"

text \<open>
  The structure of a pipeline: per stage its name, and per action its name, its
  run-order and the names of the artifacts it reads and writes.
\<close>

definition actionShape ::
    "Action \<Rightarrow> string \<times> nat option \<times> string option \<times> string list \<times> string list" where
  "actionShape a =
     (actionName a, runOrder a, map_option artifactName (input a),
      map artifactName (extraInputs a), map artifactName (outputs a))"

definition shape ::
    "CodePipelineConstruct \<Rightarrow>
     (string \<times> (string \<times> nat option \<times> string option \<times> string list \<times> string list) list) list"
  where
  "shape c = map (\<lambda>s. (stageName s, map actionShape (actions s))) (stages (pipeline c))"

section \<open>Example configurations\<close>

text \<open>
  The configuration of the specification's end-to-end example (a git source with no
  branch given), in some stack, and variants of it.
\<close>

definition exampleStack :: Stack where
  "exampleStack = \<lparr>region = ''eu-west-1'', account = ''123456789012''\<rparr>"

definition exampleProps :: Props where
  "exampleProps =
     \<lparr>dataManifestBucket =
        \<lparr>bucketArn = ''arn:aws:s3:::manifests'', bucketName = ''manifests''\<rparr>,
      sageMakerArtifactBucket =
        Some \<lparr>bucketArn = ''arn:aws:s3:::artifacts'', bucketName = ''artifacts''\<rparr>,
      sageMakerExecutionRole = Some \<lparr>roleArn = ''exec-role''\<rparr>,
      projectName = Some ''demo'',
      repoType = ''git'',
      git = Some \<lparr>githubConnectionArn = ''conn1'', githubRepoOwner = ''acme'',
                  githubRepoName = ''ml-repo'', githubRepoBranch = None\<rparr>\<rparr>"

definition exampleScope :: Scope where
  "exampleScope = \<lparr>stackOf = exampleStack, children = [(''Network'', OtherConstruct)]\<rparr>"

definition codecommitProps :: Props where
  "codecommitProps = exampleProps\<lparr>repoType := ''codecommit'', git := None\<rparr>"

text \<open>A tag outside the declared type.\<close>

definition svnProps :: Props where
  "svnProps = exampleProps\<lparr>repoType := ''svn'', git := None\<rparr>"

text \<open>Required fields left out.\<close>

definition namelessProps :: Props where
  "namelessProps = exampleProps\<lparr>projectName := None\<rparr>"

definition bucketlessProps :: Props where
  "bucketlessProps = exampleProps\<lparr>sageMakerArtifactBucket := None\<rparr>"

section \<open>What a finished construct looks like\<close>

lemma constructor_Inr:
  assumes "constructor stack props = Inr c"
  obtains sc repos b e pn mlRole ml where
    "sourceCode props = Inr (sc, repos)"
    "sageMakerArtifactBucket props = Some b"
    "sageMakerExecutionRole props = Some e"
    "projectName props = Some pn"
    "mlPipelineRole stack props = Inr mlRole"
    "mlPipelie props mlRole = Inr ml"
    "c = \<lparr>pipeline =
            \<lparr>pipelineId = ''MLOpsPipeline'', restartExecutionOnUpdate = True,
             stages =
               [\<lparr>stageName = ''Source'', actions = [sc, sourceData props]\<rparr>,
                \<lparr>stageName = ''CI'', actions = [build]\<rparr>,
                \<lparr>stageName = ''MLPipeline'', actions = [ml]\<rparr>,
                \<lparr>stageName = ''Deploy'',
                 actions = [manualApprovalAction stack props, deploy stack props]\<rparr>]\<rparr>,
          repositories = repos,
          topics = [deploymentApprovalTopic],
          roles = [mlRole, deployRole stack props],
          projects = [buildProject, mlPipelineProject mlRole, deployProject stack props]\<rparr>"
  using assms
  by (auto simp: constructor_def addStage_def plaintextUndefined_def Let_def
        mlPipelineRole_def mlPipelie_def
      split: sum.splits prod.splits option.splits if_splits)

text \<open>The stages that bind without a plain-text variable are always added.\<close>

lemma addStage_Source:
  "sourceCode props = Inr (sc, repos) \<Longrightarrow>
   addStage pl \<lparr>stageName = ''Source'', actions = [sc, sourceData props]\<rparr>
     = Inr (pl\<lparr>stages := stages pl @
              [\<lparr>stageName = ''Source'', actions = [sc, sourceData props]\<rparr>]\<rparr>)"
  by (auto simp: addStage_def plaintextUndefined_def sourceCode_def sourceData_def
      split: if_splits option.splits)

lemma addStage_CI:
  "addStage pl \<lparr>stageName = ''CI'', actions = [build]\<rparr>
     = Inr (pl\<lparr>stages := stages pl @ [\<lparr>stageName = ''CI'', actions = [build]\<rparr>]\<rparr>)"
  by (simp add: addStage_def plaintextUndefined_def build_def)

lemma addStage_Deploy:
  "addStage pl
     \<lparr>stageName = ''Deploy'',
      actions = [manualApprovalAction stack props, deploy stack props]\<rparr>
     = Inr (pl\<lparr>stages := stages pl @
              [\<lparr>stageName = ''Deploy'',
                actions = [manualApprovalAction stack props, deploy stack props]\<rparr>]\<rparr>)"
  by (simp add: addStage_def plaintextUndefined_def manualApprovalAction_def deploy_def)

text \<open>The statements raise exactly when an absent field is dereferenced.\<close>

lemma constructor_isl:
  "isl (constructor stack props) \<longleftrightarrow>
     repoType props = ''git'' \<and> git props = None
     \<or> sageMakerArtifactBucket props = None \<or> sageMakerExecutionRole props = None
     \<or> projectName props = None"
  by (auto simp: constructor_def sourceCode_def mlPipelineRole_def mlPipelie_def Let_def
        addStage_def plaintextUndefined_def sourceData_def build_def
        manualApprovalAction_def deploy_def
      split: sum.splits prod.splits option.splits if_splits)

lemma constructor_projr:
  "\<not> isl (constructor stack props) \<Longrightarrow>
   constructor stack props = Inr (projr (constructor stack props))"
  by (cases "constructor stack props") auto

lemmas example_defs =
  exampleStack_def exampleProps_def codecommitProps_def svnProps_def namelessProps_def
  bucketlessProps_def

lemmas constructor_defs =
  constructor_def sourceCode_def sourceData_def build_def buildProject_def
  mlPipelineRole_def mlPipelineProject_def mlPipelie_def manualApprovalAction_def
  deployRole_def deployProject_def deploy_def addStage_def plaintextUndefined_def
  addToPolicy_def artifactBucketStatement_def pipelineLifecycleStatement_def
  passRoleStatement_def interp_def or_else_def Let_def

lemmas reading_defs =
  findStage_def findAction_def stageNames_def inputs_def

lemma example_succeeds:
  "\<not> isl (constructor exampleStack exampleProps)"
  "\<not> isl (constructor exampleStack codecommitProps)"
  "\<not> isl (constructor exampleStack svnProps)"
  by (simp_all add: constructor_isl example_defs)

text \<open>Under an id that is free, the scope adds nothing to what the statements do.\<close>

lemma newCodePipelineConstruct_free:
  "id' \<notin> set (childIds scope) \<Longrightarrow>
   fst (newCodePipelineConstruct scope id' props)
     = map_sum fst id (constructor (stackOf scope) props)"
  by (auto simp: newCodePipelineConstruct_def split: sum.splits)

lemma newCodePipelineConstruct_childIds:
  "id' \<notin> set (childIds scope) \<Longrightarrow>
   childIds (snd (newCodePipelineConstruct scope id' props)) = childIds scope @ [id']"
  by (auto simp: newCodePipelineConstruct_def childIds_def split: sum.splits)

text \<open>The structure of what the statements build does not depend on the stack.\<close>

lemma constructor_shape:
  "map_sum fst shape (constructor stack1 props) = map_sum fst shape (constructor stack2 props)"
  by (auto simp: constructor_def sourceCode_def mlPipelineRole_def mlPipelie_def Let_def
        addStage_def plaintextUndefined_def sourceData_def build_def
        shape_def actionShape_def manualApprovalAction_def deploy_def
      split: sum.splits prod.splits option.splits if_splits)

section \<open>The source variant\<close>

text \<open>
  C1, as stated: for every configuration whose \<open>repoType\<close> is neither \<open>git\<close> nor
  \<open>codecommit\<close>, construction fails (with a configuration error) instead of
  defaulting to a source variant. The constructor tests \<open>repoType\<close> against \<open>git\<close>
  only and has no other test, so the statement fails at the tag \<open>svn\<close>: the
  construct is built.
\<close>

theorem unknown_repoType_is_not_rejected:
  "repoType svnProps \<noteq> ''git'' \<and> repoType svnProps \<noteq> ''codecommit'' \<and>
   \<not> isl (constructor exampleStack svnProps)"
  by (simp add: constructor_isl example_defs)

text \<open>
  C1, amended: for every configuration whose \<open>repoType\<close> is any value other than
  \<open>git\<close>, recognised or not, the tag is not rejected: with the project name, the
  artifact bucket and the execution role present the constructor succeeds, declares
  the one repository \<open>MLOpsE2EDemo\<close> and pulls the source from it on branch \<open>main\<close>.
\<close>

theorem every_other_repoType_takes_codecommit:
  assumes "repoType props \<noteq> ''git''"
    and "projectName props = Some pn"
    and "sageMakerArtifactBucket props = Some b"
    and "sageMakerExecutionRole props = Some e"
  shows "\<exists>c. constructor stack props = Inr c \<and> repositories c = [sourceRepo] \<and>
           findAction ''Source'' ''SourceCode'' c =
             Some \<lparr>actionName = ''SourceCode'',
                   kind = CodeCommitSourceAction sourceRepo ''main'',
                   runOrder = None, input = None, extraInputs = [],
                   outputs = [sourceCodeOutput]\<rparr>"
proof -
  from assms have "\<not> isl (constructor stack props)"
    by (simp add: constructor_isl)
  then obtain c where c: "constructor stack props = Inr c"
    by (cases "constructor stack props") auto
  from assms(1) have sc: "sourceCode props =
      Inr (\<lparr>actionName = ''SourceCode'',
            kind = CodeCommitSourceAction sourceRepo ''main'',
            runOrder = None, input = None, extraInputs = [],
            outputs = [sourceCodeOutput]\<rparr>, [sourceRepo])"
    by (simp add: sourceCode_def)
  from c sc show ?thesis
    by (auto elim!: constructor_Inr simp: findAction_def findStage_def)
qed

theorem every_other_repoType_takes_codecommit_witness:
  "repoType svnProps \<noteq> ''git'' \<and>
   projectName svnProps = Some ''demo'' \<and>
   sageMakerArtifactBucket svnProps =
     Some \<lparr>bucketArn = ''arn:aws:s3:::artifacts'', bucketName = ''artifacts''\<rparr> \<and>
   sageMakerExecutionRole svnProps = Some \<lparr>roleArn = ''exec-role''\<rparr> \<and>
   repositories (projr (constructor exampleStack svnProps)) = [sourceRepo] \<and>
   kind (the (findAction ''Source'' ''SourceCode'' (projr (constructor exampleStack svnProps))))
     = CodeCommitSourceAction sourceRepo ''main''"
proof -
  have h: "repoType svnProps \<noteq> ''git''"
    "projectName svnProps = Some ''demo''"
    "sageMakerArtifactBucket svnProps =
       Some \<lparr>bucketArn = ''arn:aws:s3:::artifacts'', bucketName = ''artifacts''\<rparr>"
    "sageMakerExecutionRole svnProps = Some \<lparr>roleArn = ''exec-role''\<rparr>"
    by (simp_all add: example_defs)
  from every_other_repoType_takes_codecommit [OF h, of exampleStack] h
  show ?thesis by auto
qed

section \<open>The permissions of the model pipeline's role\<close>

text \<open>
  C2: for every configuration, every resource of the statement of the model
  pipeline's role that grants the pipeline-lifecycle actions (the
  \<open>sagemaker:\<close> actions of \<open>pipelineLifecycleActions\<close>) is not the bare wildcard
  \<open>*\<close> and contains the project name of the configuration.
\<close>

theorem lifecycle_resources_name_the_project:
  assumes "constructor stack props = Inr c"
    and "r \<in> set (roles c)" and "roleId r = ''MLPipelineRole''"
    and "s \<in> set (policy r)"
    and "set (stmtActions s) \<inter> set pipelineLifecycleActions \<noteq> {}"
    and "x \<in> set (stmtResources s)"
  shows "x \<noteq> ''*'' \<and> (\<forall>pn. projectName props = Some pn \<longrightarrow> sublist pn x)"
proof -
  from assms(1) obtain b e mlRole where
    role: "mlPipelineRole stack props = Inr mlRole"
    and b: "sageMakerArtifactBucket props = Some b"
    and e: "sageMakerExecutionRole props = Some e"
    and c: "roles c = [mlRole, deployRole stack props]"
    by (auto elim!: constructor_Inr)
  have "roleId (deployRole stack props) = ''DeployRole''"
    by (simp add: deployRole_def Let_def addToPolicy_def)
  with assms(2,3) c have r: "r = mlRole" by auto
  from role b e have pol: "policy mlRole =
      [artifactBucketStatement b, pipelineLifecycleStatement stack props, passRoleStatement e]"
    by (auto simp: mlPipelineRole_def Let_def addToPolicy_def)
  have "set (stmtActions (artifactBucketStatement b)) \<inter> set pipelineLifecycleActions = {}"
    by (simp add: artifactBucketStatement_def pipelineLifecycleActions_def)
  moreover
  have "set (stmtActions (passRoleStatement e)) \<inter> set pipelineLifecycleActions = {}"
    by (simp add: passRoleStatement_def pipelineLifecycleActions_def)
  ultimately have s: "s = pipelineLifecycleStatement stack props"
    using assms(4,5) r pol by auto
  define P where
    "P = ''arn:aws:sagemaker:'' @ region stack @ '':'' @ account stack @ '':pipeline/''"
  from assms(6) s
  have x: "x = P @ interp (projectName props) \<or> x = P @ interp (projectName props) @ ''/*''"
    by (auto simp: pipelineLifecycleStatement_def P_def)
  have "x \<noteq> ''*''" using x by (auto simp: P_def)
  moreover have "sublist pn x" if "projectName props = Some pn" for pn
    using x that by (auto simp: interp_def)
  ultimately show ?thesis by blast
qed

theorem lifecycle_resources_name_the_project_witness:
  "constructor exampleStack exampleProps = Inr (projr (constructor exampleStack exampleProps)) \<and>
   roleId (hd (roles (projr (constructor exampleStack exampleProps)))) = ''MLPipelineRole'' \<and>
   stmtActions (policy (hd (roles (projr (constructor exampleStack exampleProps)))) ! 1)
     = pipelineLifecycleActions \<and>
   stmtResources (policy (hd (roles (projr (constructor exampleStack exampleProps)))) ! 1)
     = [''arn:aws:sagemaker:eu-west-1:123456789012:pipeline/demo'',
        ''arn:aws:sagemaker:eu-west-1:123456789012:pipeline/demo/*''] \<and>
   projectName exampleProps = Some ''demo'' \<and>
   ''arn:aws:sagemaker:eu-west-1:123456789012:pipeline/demo/*'' \<noteq> ''*'' \<and>
   sublist ''demo'' ''arn:aws:sagemaker:eu-west-1:123456789012:pipeline/demo/*''"
proof -
  let ?c = "projr (constructor exampleStack exampleProps)"
  let ?r = "hd (roles ?c)"
  let ?s = "policy ?r ! 1"
  let ?x = "''arn:aws:sagemaker:eu-west-1:123456789012:pipeline/demo/*''"
  have c: "constructor exampleStack exampleProps = Inr ?c"
    by (rule constructor_projr) (rule example_succeeds)
  have r: "?r \<in> set (roles ?c)" "roleId ?r = ''MLPipelineRole''"
    by (simp_all add: constructor_defs example_defs)
  have s: "?s \<in> set (policy ?r)" "stmtActions ?s = pipelineLifecycleActions"
    by (simp_all add: constructor_defs example_defs)
  have res: "stmtResources ?s =
      [''arn:aws:sagemaker:eu-west-1:123456789012:pipeline/demo'', ?x]"
    by (simp add: constructor_defs example_defs)
  have a: "set (stmtActions ?s) \<inter> set pipelineLifecycleActions \<noteq> {}"
    unfolding s(2) by (simp add: pipelineLifecycleActions_def)
  have x: "?x \<in> set (stmtResources ?s)"
    unfolding res by simp
  have pn: "projectName exampleProps = Some ''demo''"
    by (simp add: example_defs)
  from lifecycle_resources_name_the_project [OF c r s(1) a x] pn
  have "?x \<noteq> ''*'' \<and> sublist ''demo'' ?x" by blast
  with c r(2) s(2) res pn show ?thesis by blast
qed

section \<open>Stages, their order and their artifacts\<close>

text \<open>
  C3, as stated: for every valid configuration the pipeline has exactly four stages,
  named Source, CI, ModelPipeline and Deploy in this order. The constructor names the
  third stage \<open>MLPipeline\<close>, so the statement fails at the example configuration.
\<close>

theorem third_stage_is_not_named_ModelPipeline:
  "well_typed exampleProps \<and>
   map_sum id stageNames (constructor exampleStack exampleProps)
     \<noteq> Inr [''Source'', ''CI'', ''ModelPipeline'', ''Deploy'']"
  by (simp add: well_typed_def constructor_defs stageNames_def example_defs)

text \<open>
  C3, amended: for every valid configuration the constructor succeeds and the
  pipeline has exactly four stages, named Source, CI, MLPipeline and Deploy in this
  order.
\<close>

theorem four_stages_in_order:
  assumes "well_typed props"
  shows "\<exists>c. constructor stack props = Inr c \<and>
           stageNames c = [''Source'', ''CI'', ''MLPipeline'', ''Deploy'']"
proof -
  from assms have "\<not> isl (constructor stack props)"
    unfolding constructor_isl well_typed_def by auto
  then obtain c where c: "constructor stack props = Inr c"
    by (cases "constructor stack props") auto
  then have "stageNames c = [''Source'', ''CI'', ''MLPipeline'', ''Deploy'']"
    by (auto elim!: constructor_Inr simp: stageNames_def)
  with c show ?thesis by blast
qed

theorem four_stages_in_order_witness:
  "well_typed codecommitProps \<and>
   map_sum id stageNames (constructor exampleStack codecommitProps)
     = Inr [''Source'', ''CI'', ''MLPipeline'', ''Deploy'']"
proof -
  have h: "well_typed codecommitProps"
    by (simp add: well_typed_def example_defs)
  from four_stages_in_order [OF h, of exampleStack] h show ?thesis by auto
qed

text \<open>
  C4: for every configuration, in the Deploy stage the run-order of the manual
  approval action is strictly less than the run-order of the deploy build action.
  The stage holds these two actions and no other.
\<close>

theorem approval_runs_before_deploy:
  assumes "constructor stack props = Inr c"
  shows "\<exists>s ap dp a d.
           findStage ''Deploy'' c = Some s \<and> actions s = [ap, dp] \<and>
           findAction ''Deploy'' ''Approval'' c = Some ap \<and>
           is_ManualApprovalAction (kind ap) \<and>
           findAction ''Deploy'' ''Deploy'' c = Some dp \<and>
           is_CodeBuildAction (kind dp) \<and>
           runOrder ap = Some a \<and> runOrder dp = Some d \<and> a < d"
  using assms
  by (auto elim!: constructor_Inr
      simp: findStage_def findAction_def manualApprovalAction_def deploy_def)

theorem approval_runs_before_deploy_witness:
  "constructor exampleStack exampleProps = Inr (projr (constructor exampleStack exampleProps)) \<and>
   runOrder (the (findAction ''Deploy'' ''Approval'' (projr (constructor exampleStack exampleProps))))
     = Some 1 \<and>
   runOrder (the (findAction ''Deploy'' ''Deploy'' (projr (constructor exampleStack exampleProps))))
     = Some 2"
proof -
  let ?c = "projr (constructor exampleStack exampleProps)"
  have c: "constructor exampleStack exampleProps = Inr ?c"
    by (rule constructor_projr) (rule example_succeeds)
  have "findAction ''Deploy'' ''Approval'' ?c = Some (manualApprovalAction exampleStack exampleProps)"
    "findAction ''Deploy'' ''Deploy'' ?c = Some (deploy exampleStack exampleProps)"
    by (auto intro: constructor_Inr [OF c]
        simp: findStage_def findAction_def manualApprovalAction_def deploy_def)
  with approval_runs_before_deploy [OF c] c show ?thesis
    by (auto simp: manualApprovalAction_def deploy_def)
qed

text \<open>
  C6: for every configuration, every artifact that an action of stage \<open>n\<close> takes as
  its primary or as an extra input is an output of an action of an earlier stage;
  no action reads an artifact produced in its own stage or in a later one.
\<close>

theorem no_forward_references:
  assumes "constructor stack props = Inr c"
    and "n < length (stages (pipeline c))"
    and "a \<in> set (actions (stages (pipeline c) ! n))"
    and "x \<in> set (inputs a)"
  shows "\<exists>m<n. \<exists>b \<in> set (actions (stages (pipeline c) ! m)). x \<in> set (outputs b)"
proof -
  from assms(1) obtain sc repos ml mlRole where
    sc: "sourceCode props = Inr (sc, repos)"
    and ml: "mlPipelie props mlRole = Inr ml"
    and st: "stages (pipeline c) =
               [\<lparr>stageName = ''Source'', actions = [sc, sourceData props]\<rparr>,
                \<lparr>stageName = ''CI'', actions = [build]\<rparr>,
                \<lparr>stageName = ''MLPipeline'', actions = [ml]\<rparr>,
                \<lparr>stageName = ''Deploy'',
                 actions = [manualApprovalAction stack props, deploy stack props]\<rparr>]"
    by (auto elim!: constructor_Inr)
  from sc have sc_io: "inputs sc = []" "outputs sc = [sourceCodeOutput]"
    by (auto simp: sourceCode_def inputs_def split: if_splits option.splits)
  from ml have ml_io: "inputs ml = [buildOutput]" "outputs ml = [pipelineOutput]"
    by (auto simp: mlPipelie_def inputs_def split: option.splits)
  have io: "inputs (sourceData props) = []" "outputs (sourceData props) = [sourceDataOutput]"
    "inputs build = [sourceCodeOutput, sourceDataOutput]" "outputs build = [buildOutput]"
    "inputs (manualApprovalAction stack props) = []"
    "inputs (deploy stack props) = [buildOutput, pipelineOutput]"
    by (simp_all add: sourceData_def build_def manualApprovalAction_def deploy_def inputs_def)
  from assms(2) st have "n = 0 \<or> n = 1 \<or> n = 2 \<or> n = 3" by auto
  then show ?thesis
  proof (elim disjE)
    assume "n = 0"
    with assms(3,4) st sc_io io show ?thesis by auto
  next
    assume n: "n = 1"
    with assms(3,4) st io have "x = sourceCodeOutput \<or> x = sourceDataOutput" by auto
    then show ?thesis
    proof
      assume "x = sourceCodeOutput"
      with n st sc_io show ?thesis by (intro exI[of _ 0]) auto
    next
      assume "x = sourceDataOutput"
      with n st io show ?thesis by (intro exI[of _ 0]) auto
    qed
  next
    assume n: "n = 2"
    with assms(3,4) st ml_io have "x = buildOutput" by auto
    with n st io show ?thesis by (intro exI[of _ 1]) auto
  next
    assume n: "n = 3"
    with assms(3,4) st io have "x = buildOutput \<or> x = pipelineOutput" by auto
    then show ?thesis
    proof
      assume "x = buildOutput"
      with n st io show ?thesis by (intro exI[of _ 1]) auto
    next
      assume "x = pipelineOutput"
      with n st ml_io show ?thesis by (intro exI[of _ 2]) auto
    qed
  qed
qed

theorem no_forward_references_witness:
  "constructor exampleStack exampleProps = Inr (projr (constructor exampleStack exampleProps)) \<and>
   3 < length (stages (pipeline (projr (constructor exampleStack exampleProps)))) \<and>
   deploy exampleStack exampleProps
     \<in> set (actions (stages (pipeline (projr (constructor exampleStack exampleProps))) ! 3)) \<and>
   pipelineOutput \<in> set (inputs (deploy exampleStack exampleProps)) \<and>
   pipelineOutput
     \<in> set (outputs (hd (actions
          (stages (pipeline (projr (constructor exampleStack exampleProps))) ! 2))))"
proof -
  let ?c = "projr (constructor exampleStack exampleProps)"
  have c: "constructor exampleStack exampleProps = Inr ?c"
    by (rule constructor_projr) (rule example_succeeds)
  have n: "3 < length (stages (pipeline ?c))"
    by (rule constructor_Inr [OF c]) simp
  have a: "deploy exampleStack exampleProps \<in> set (actions (stages (pipeline ?c) ! 3))"
    by (rule constructor_Inr [OF c]) simp
  have x: "pipelineOutput \<in> set (inputs (deploy exampleStack exampleProps))"
    by (simp add: deploy_def inputs_def)
  have y: "pipelineOutput \<in> set (outputs (hd (actions (stages (pipeline ?c) ! 2))))"
    by (rule constructor_Inr [OF c]) (auto simp: mlPipelie_def split: option.splits)
  from no_forward_references [OF c n a x] c n a x y show ?thesis by blast
qed

section \<open>Absent fields\<close>

text \<open>
  C5, as stated: for every configuration in which the project name, the artifact
  bucket or the execution role is absent, construction fails with a configuration
  error, raised by a validation at its start and not during the construction of the
  stages. The constructor validates nothing. With the project name absent it adds the
  Source and the CI stage, builds the role of the model pipeline, and fails only when
  the MLPipeline stage is added, with the \<open>TypeError\<close> of reading the \<open>length\<close> of
  the absent name.
\<close>

theorem absent_projectName_fails_late_with_TypeError:
  "projectName namelessProps = None \<and>
   map_sum (map_prod id stageNames) stageNames (constructor exampleStack namelessProps)
     = Inl (TypeError ''length'', [''Source'', ''CI''])"
  by (simp add: constructor_defs stageNames_def example_defs)

text \<open>
  C5, amended: for every configuration in which the project name, the artifact bucket
  or the execution role is absent, construction fails, with a \<open>TypeError\<close> and not a
  configuration error, and nothing is validated at its start. Unless the source
  action itself cannot be built (a \<open>git\<close> configuration without its \<open>git\<close> block),
  the error is raised after the Source and the CI stage have been added, where the
  absent field is first dereferenced: \<open>bucketArn\<close> of the artifact bucket or else
  \<open>roleArn\<close> of the execution role while the statements of the model pipeline's role
  are built, or else the \<open>length\<close> of the project name when the MLPipeline stage is
  added.
\<close>

theorem absent_fields_raise_TypeError_lazily:
  assumes "projectName props = None \<or> sageMakerArtifactBucket props = None
           \<or> sageMakerExecutionRole props = None"
  shows "\<exists>e c. constructor stack props = Inl (TypeError e, c) \<and>
           (\<not> isl (sourceCode props) \<longrightarrow>
              stageNames c = [''Source'', ''CI''] \<and>
              e = (if sageMakerArtifactBucket props = None then ''bucketArn''
                   else if sageMakerExecutionRole props = None then ''roleArn''
                   else ''length''))"
proof (cases "sourceCode props")
  case (Inl e)
  then show ?thesis
    by (auto simp: constructor_def sourceCode_def split: if_splits option.splits)
next
  case (Inr r)
  obtain sc repos where r: "r = (sc, repos)" by (cases r)
  note src = Inr [unfolded r]
  note st = addStage_Source [OF src] addStage_CI
  show ?thesis
  proof (cases "sageMakerArtifactBucket props")
    case None
    with src st show ?thesis
      by (simp add: constructor_def mlPipelineRole_def Let_def stageNames_def)
  next
    case b: (Some b)
    show ?thesis
    proof (cases "sageMakerExecutionRole props")
      case None
      with src st b show ?thesis
        by (simp add: constructor_def mlPipelineRole_def Let_def stageNames_def)
    next
      case e: (Some e)
      with assms b have "projectName props = None" by simp
      with src st b e show ?thesis
        by (simp add: constructor_def mlPipelineRole_def mlPipelie_def Let_def
            stageNames_def addStage_def plaintextUndefined_def)
    qed
  qed
qed

theorem absent_fields_raise_TypeError_lazily_witness:
  "sageMakerArtifactBucket bucketlessProps = None \<and>
   \<not> isl (sourceCode bucketlessProps) \<and>
   map_sum (map_prod id stageNames) stageNames (constructor exampleStack bucketlessProps)
     = Inl (TypeError ''bucketArn'', [''Source'', ''CI''])"
proof -
  have h: "sageMakerArtifactBucket bucketlessProps = None"
    "\<not> isl (sourceCode bucketlessProps)"
    by (simp_all add: sourceCode_def example_defs)
  from h(1) have "projectName bucketlessProps = None \<or>
      sageMakerArtifactBucket bucketlessProps = None \<or>
      sageMakerExecutionRole bucketlessProps = None"
    by simp
  from absent_fields_raise_TypeError_lazily [OF this, of exampleStack] h
  show ?thesis by auto
qed

section \<open>The two source variants\<close>

text \<open>
  C7: for every configuration with \<open>repoType\<close> \<open>git\<close> whose branch is left out, the
  source action of the pipeline is on branch \<open>main\<close>.
\<close>

theorem git_branch_defaults_to_main:
  assumes "constructor stack props = Inr c"
    and "repoType props = ''git''"
    and "git props = Some g" and "githubRepoBranch g = None"
  shows "\<exists>a. findAction ''Source'' ''SourceCode'' c = Some a \<and>
           is_CodeStarConnectionsSourceAction (kind a) \<and> branch (kind a) = ''main''"
  using assms
  by (auto elim!: constructor_Inr
      simp: findStage_def findAction_def sourceCode_def or_else_def)

theorem git_branch_defaults_to_main_witness:
  "constructor exampleStack exampleProps = Inr (projr (constructor exampleStack exampleProps)) \<and>
   repoType exampleProps = ''git'' \<and>
   githubRepoBranch (the (git exampleProps)) = None \<and>
   kind (the (findAction ''Source'' ''SourceCode'' (projr (constructor exampleStack exampleProps))))
     = CodeStarConnectionsSourceAction ''acme'' ''ml-repo'' ''main'' ''conn1''"
proof -
  let ?c = "projr (constructor exampleStack exampleProps)"
  have c: "constructor exampleStack exampleProps = Inr ?c"
    by (rule constructor_projr) (rule example_succeeds)
  have h: "repoType exampleProps = ''git''" "git exampleProps = Some (the (git exampleProps))"
    "githubRepoBranch (the (git exampleProps)) = None"
    by (simp_all add: example_defs)
  have k: "kind (the (findAction ''Source'' ''SourceCode'' ?c))
      = CodeStarConnectionsSourceAction ''acme'' ''ml-repo'' ''main'' ''conn1''"
    by (simp add: constructor_defs reading_defs example_defs)
  from git_branch_defaults_to_main [OF c h] c h k show ?thesis by blast
qed

text \<open>
  C8: for every configuration with \<open>repoType\<close> \<open>codecommit\<close>, the construct declares
  exactly one repository, always named \<open>MLOpsE2EDemo\<close>, and the source action of the
  pipeline pulls from this repository on branch \<open>main\<close>.
\<close>

theorem codecommit_declares_one_repository:
  assumes "constructor stack props = Inr c"
    and "repoType props = ''codecommit''"
  shows "repositories c = [sourceRepo] \<and> repositoryName sourceRepo = ''MLOpsE2EDemo'' \<and>
         (\<exists>a. findAction ''Source'' ''SourceCode'' c = Some a \<and>
               kind a = CodeCommitSourceAction sourceRepo ''main'')"
  using assms
  by (auto elim!: constructor_Inr
      simp: findStage_def findAction_def sourceCode_def sourceRepo_def)

theorem codecommit_declares_one_repository_witness:
  "constructor exampleStack codecommitProps
     = Inr (projr (constructor exampleStack codecommitProps)) \<and>
   repoType codecommitProps = ''codecommit'' \<and>
   repositories (projr (constructor exampleStack codecommitProps))
     = [\<lparr>repositoryId = ''SourceRepository'', repositoryName = ''MLOpsE2EDemo''\<rparr>]"
proof -
  let ?c = "projr (constructor exampleStack codecommitProps)"
  have c: "constructor exampleStack codecommitProps = Inr ?c"
    by (rule constructor_projr) (rule example_succeeds)
  have h: "repoType codecommitProps = ''codecommit''"
    by (simp add: example_defs)
  from codecommit_declares_one_repository [OF c h] c h show ?thesis
    by (simp add: sourceRepo_def)
qed

section \<open>Building twice\<close>

text \<open>
  C9: building twice from one configuration gives two pipelines of the same
  structure: the same stage names, action names, run-orders and artifact names on
  every input and output (or twice the same failure). Each build is a
  \<^verbatim>\<open>new CodePipelineConstruct(scope, id, props)\<close> under an id that is free in its
  scope, as \<^verbatim>\<open>super\<close> demands; the scope of the second build is any scope: one of
  its own, in the same or in another stack, or the scope that the first build has left
  behind, which holds the first construct.
\<close>

theorem two_builds_have_the_same_shape:
  assumes "id1 \<notin> set (childIds scope1)" and "id2 \<notin> set (childIds scope2)"
  shows "map_sum id shape (fst (newCodePipelineConstruct scope1 id1 props))
           = map_sum id shape (fst (newCodePipelineConstruct scope2 id2 props))"
proof -
  have "map_sum id shape (map_sum fst id x) = map_sum fst shape x"
    for x :: "error \<times> CodePipelineConstruct + CodePipelineConstruct"
    by (cases x) simp_all
  with assms show ?thesis
    using constructor_shape [of "stackOf scope1" props "stackOf scope2"]
    by (simp add: newCodePipelineConstruct_free)
qed

theorem two_builds_have_the_same_shape_witness:
  "''First'' \<notin> set (childIds exampleScope) \<and>
   ''Second'' \<notin> set (childIds (snd (newCodePipelineConstruct exampleScope ''First'' exampleProps))) \<and>
   childIds (snd (newCodePipelineConstruct exampleScope ''First'' exampleProps))
     = [''Network'', ''First''] \<and>
   map_sum id shape
     (fst (newCodePipelineConstruct
        (snd (newCodePipelineConstruct exampleScope ''First'' exampleProps))
        ''Second'' exampleProps))
     = map_sum id shape (fst (newCodePipelineConstruct exampleScope ''First'' exampleProps)) \<and>
   map_sum id shape (fst (newCodePipelineConstruct exampleScope ''First'' exampleProps)) =
     Inr [(''Source'',
            [(''SourceCode'', None, None, [], [''SourceCodeOutput'']),
             (''SourceData'', None, None, [], [''SourceDataOutput''])]),
          (''CI'',
            [(''CIBuild'', None, Some ''SourceCodeOutput'', [''SourceDataOutput''],
              [''BuildOutput''])]),
          (''MLPipeline'',
            [(''MLPipeline'', None, Some ''BuildOutput'', [], [''PipelineOutput''])]),
          (''Deploy'',
            [(''Approval'', Some 1, None, [], []),
             (''Deploy'', Some 2, Some ''BuildOutput'', [''PipelineOutput''], [])])]"
proof -
  let ?scope' = "snd (newCodePipelineConstruct exampleScope ''First'' exampleProps)"
  have f1: "''First'' \<notin> set (childIds exampleScope)"
    by (simp add: childIds_def exampleScope_def)
  have ids: "childIds ?scope' = [''Network'', ''First'']"
    unfolding newCodePipelineConstruct_childIds [OF f1]
    by (simp add: childIds_def exampleScope_def)
  have f2: "''Second'' \<notin> set (childIds ?scope')"
    unfolding ids by simp
  have "constructor exampleStack exampleProps
      = Inr (projr (constructor exampleStack exampleProps))"
    by (rule constructor_projr) (rule example_succeeds)
  then have "map_sum fst shape (constructor exampleStack exampleProps)
      = Inr (shape (projr (constructor exampleStack exampleProps)))"
    by (metis map_sum.simps(2))
  also have "shape (projr (constructor exampleStack exampleProps)) =
     [(''Source'',
            [(''SourceCode'', None, None, [], [''SourceCodeOutput'']),
             (''SourceData'', None, None, [], [''SourceDataOutput''])]),
          (''CI'',
            [(''CIBuild'', None, Some ''SourceCodeOutput'', [''SourceDataOutput''],
              [''BuildOutput''])]),
          (''MLPipeline'',
            [(''MLPipeline'', None, Some ''BuildOutput'', [], [''PipelineOutput''])]),
          (''Deploy'',
            [(''Approval'', Some 1, None, [], []),
             (''Deploy'', Some 2, Some ''BuildOutput'', [''PipelineOutput''], [])])]"
    by (simp add: constructor_defs shape_def actionShape_def example_defs
        sourceCodeOutput_def sourceDataOutput_def buildOutput_def pipelineOutput_def)
  finally have sh: "map_sum id shape
      (fst (newCodePipelineConstruct exampleScope ''First'' exampleProps)) = Inr
     [(''Source'',
            [(''SourceCode'', None, None, [], [''SourceCodeOutput'']),
             (''SourceData'', None, None, [], [''SourceDataOutput''])]),
          (''CI'',
            [(''CIBuild'', None, Some ''SourceCodeOutput'', [''SourceDataOutput''],
              [''BuildOutput''])]),
          (''MLPipeline'',
            [(''MLPipeline'', None, Some ''BuildOutput'', [], [''PipelineOutput''])]),
          (''Deploy'',
            [(''Approval'', Some 1, None, [], []),
             (''Deploy'', Some 2, Some ''BuildOutput'', [''PipelineOutput''], [])])]"
    unfolding newCodePipelineConstruct_free [OF f1]
    by (cases "constructor (stackOf exampleScope) exampleProps")
      (auto simp: exampleScope_def)
  from two_builds_have_the_same_shape [OF f2 f1, of exampleProps] f1 f2 ids sh
  show ?thesis by simp
qed

text \<open>
  Under the id of the first build the scope refuses the second one: \<^verbatim>\<open>super\<close> raises
  before any statement of the constructor runs, and the scope is left as it was.
\<close>

lemma second_build_under_the_same_id:
  assumes "id1 \<notin> set (childIds scope)"
    and "newCodePipelineConstruct scope id1 props = (r, scope')"
  shows "newCodePipelineConstruct scope' id1 props
           = (Inl (Error (''There is already a Construct with name '' @ id1)), scope')"
proof -
  from assms have "childIds scope' = childIds scope @ [id1]"
    using newCodePipelineConstruct_childIds [of id1 scope props] by simp
  then show ?thesis
    by (simp add: newCodePipelineConstruct_def)
qed

section \<open>Privileged builds\<close>

text \<open>
  C10: for every configuration, the build action of the Deploy stage runs in a
  privileged build environment, as the build action of the CI stage does.
\<close>

theorem deploy_build_is_privileged:
  assumes "constructor stack props = Inr c"
  shows "\<exists>ci dp. findAction ''CI'' ''CIBuild'' c = Some ci \<and>
           is_CodeBuildAction (kind ci) \<and> privileged (project (kind ci)) = Some True \<and>
           findAction ''Deploy'' ''Deploy'' c = Some dp \<and>
           is_CodeBuildAction (kind dp) \<and> privileged (project (kind dp)) = Some True"
  using assms
  by (auto elim!: constructor_Inr
      simp: findStage_def findAction_def build_def buildProject_def deploy_def
        deployProject_def manualApprovalAction_def)

theorem deploy_build_is_privileged_witness:
  "constructor exampleStack exampleProps = Inr (projr (constructor exampleStack exampleProps)) \<and>
   privileged (project (kind (the
     (findAction ''Deploy'' ''Deploy'' (projr (constructor exampleStack exampleProps))))))
     = Some True \<and>
   privileged (project (kind (the
     (findAction ''CI'' ''CIBuild'' (projr (constructor exampleStack exampleProps))))))
     = Some True"
proof -
  let ?c = "projr (constructor exampleStack exampleProps)"
  have c: "constructor exampleStack exampleProps = Inr ?c"
    by (rule constructor_projr) (rule example_succeeds)
  from deploy_build_is_privileged [OF c] c show ?thesis by auto
qed

end
